theory Spec2Isabelle
  imports Main "HOL-Library.AList"
begin

section \<open>Values exchanged with peers\<close>

text \<open>
  An envelope decoded from the wire is a dynamically typed Python value. The
  constructors cover \<open>None\<close>, booleans, integers, strings, lists, mappings
  with string field names, and a reference to a connection unit (what the
  message loop passes as \<open>cl_unit=cl_unit\<close>). Floating point numbers are
  left out.
\<close>

datatype pyval =
    PNone
  | PBool bool
  | PInt int
  | PStr string
  | PList "pyval list"
  | PDict "(string \<times> pyval) list"
  | PObj nat

text \<open>Python truth value testing, as used by \<open>not code\<close> and \<open>all([...])\<close>.\<close>

fun truthy :: "pyval \<Rightarrow> bool" where
  "truthy PNone = False"
| "truthy (PBool b) = b"
| "truthy (PInt i) = (i \<noteq> 0)"
| "truthy (PStr s) = (s \<noteq> [])"
| "truthy (PList xs) = (xs \<noteq> [])"
| "truthy (PDict d) = (d \<noteq> [])"
| "truthy (PObj n) = True"

text \<open>Lists and mappings cannot be dictionary keys or set members.\<close>

fun hashable :: "pyval \<Rightarrow> bool" where
  "hashable (PList xs) = False"
| "hashable (PDict d) = False"
| "hashable v = True"

text \<open>
  Booleans are integers in Python (\<open>True == 1\<close>, equal hashes), so a
  dictionary sees \<open>True\<close> and \<open>1\<close> as one key. \<open>py_key\<close> picks the
  representative under which a key is stored.
\<close>

fun py_key :: "pyval \<Rightarrow> pyval" where
  "py_key (PBool b) = PInt (if b then 1 else 0)"
| "py_key v = v"

fun py_int :: "pyval \<Rightarrow> int option" where
  "py_int (PInt i) = Some i"
| "py_int (PBool b) = Some (if b then 1 else 0)"
| "py_int v = None"

text \<open>\<open>d.get(k, default)\<close> and \<open>d.pop(k, None)\<close> on an envelope.\<close>

definition dict_get :: "(string \<times> pyval) list \<Rightarrow> string \<Rightarrow> pyval \<Rightarrow> pyval" where
  "dict_get d k dflt = (case map_of d k of None \<Rightarrow> dflt | Some v \<Rightarrow> v)"

definition dict_pop :: "string \<Rightarrow> (string \<times> pyval) list \<Rightarrow> (string \<times> pyval) list" where
  "dict_pop k d = AList.delete k d"

section \<open>Exceptions\<close>

text \<open>
  Exception values the server raises or meets. \<open>NotAValidResponseCode v\<close> is
  the \<open>ValueError\<close> the enumeration's constructor raises for a value that is
  no member. \<open>OtherException\<close> stands for any further subclass of
  \<open>Exception\<close>, \<open>OtherBaseException\<close> for \<open>KeyboardInterrupt\<close>,
  \<open>SystemExit\<close> and the like, which \<open>except Exception\<close> does not catch
  (\<open>asyncio.CancelledError\<close> is of that kind too).
\<close>

datatype exc =
    TimeoutError
  | ValueError string
  | NotAValidResponseCode pyval
  | AttributeError string
  | TypeError string
  | RuntimeError string
  | CancelledError
  | ConnectionAbortedError
  | IncompleteReadError
  | ConnectionResetError
  | OtherException string
  | OtherBaseException string

fun is_ValueError :: "exc \<Rightarrow> bool" where
  "is_ValueError (ValueError m) = True"
| "is_ValueError (NotAValidResponseCode v) = True"
| "is_ValueError e = False"

fun is_Exception :: "exc \<Rightarrow> bool" where
  "is_Exception CancelledError = False"
| "is_Exception (OtherBaseException m) = False"
| "is_Exception e = True"

text \<open>The tuple of the message loop's first \<open>except\<close> clause.\<close>

fun is_disconnect_class :: "exc \<Rightarrow> bool" where
  "is_disconnect_class CancelledError = True"
| "is_disconnect_class ConnectionAbortedError = True"
| "is_disconnect_class IncompleteReadError = True"
| "is_disconnect_class ConnectionResetError = True"
| "is_disconnect_class e = False"

section \<open>Response codes (response\_code.py)\<close>

datatype response_code =
    AUTH_REQ | AUTH_ANS_LOGIN | AUTH_ANS_REGIS | AUTH_ANS_SERVE
  | NET_REQ
  | FIL_REQ | FIL_END
  | LOG_DEB | LOG_INF | LOG_WAR | LOG_ERR

fun value_of :: "response_code \<Rightarrow> int" where
  "value_of AUTH_REQ = 10"
| "value_of AUTH_ANS_LOGIN = 11"
| "value_of AUTH_ANS_REGIS = 12"
| "value_of AUTH_ANS_SERVE = 19"
| "value_of NET_REQ = 20"
| "value_of FIL_REQ = 30"
| "value_of FIL_END = 31"
| "value_of LOG_DEB = 41"
| "value_of LOG_INF = 42"
| "value_of LOG_WAR = 43"
| "value_of LOG_ERR = 44"

definition members :: "response_code list" where
  "members = [AUTH_REQ, AUTH_ANS_LOGIN, AUTH_ANS_REGIS, AUTH_ANS_SERVE, NET_REQ,
              FIL_REQ, FIL_END, LOG_DEB, LOG_INF, LOG_WAR, LOG_ERR]"

text \<open>
  \<open>ResponseCode(code)\<close>: the member with that value, or \<open>ValueError\<close>.
  The lookup compares by Python equality, so \<open>True\<close> is looked up as 1.
\<close>

definition ResponseCode :: "pyval \<Rightarrow> exc + response_code" where
  "ResponseCode v =
     (case py_int v of
        None \<Rightarrow> Inl (NotAValidResponseCode v)
      | Some i \<Rightarrow>
          (case find (\<lambda>c. value_of c = i) members of
             None \<Rightarrow> Inl (NotAValidResponseCode v)
           | Some c \<Rightarrow> Inr c))"

text \<open>
  The class methods. Three test membership in a set literal, which hashes the
  argument first; \<open>is_net\<close> is a plain comparison.
\<close>

definition code_in :: "pyval \<Rightarrow> response_code list \<Rightarrow> exc + bool" where
  "code_in code cs =
     (if \<not> hashable code then Inl (TypeError ''unhashable type'')
      else Inr (case py_int code of None \<Rightarrow> False | Some i \<Rightarrow> i \<in> set (map value_of cs)))"

definition is_auth :: "pyval \<Rightarrow> exc + bool" where
  "is_auth code = code_in code [AUTH_REQ, AUTH_ANS_LOGIN, AUTH_ANS_REGIS, AUTH_ANS_SERVE]"

definition is_net :: "pyval \<Rightarrow> bool" where
  "is_net code = (py_int code = Some (value_of NET_REQ))"

definition is_file :: "pyval \<Rightarrow> exc + bool" where
  "is_file code = code_in code [FIL_REQ, FIL_END]"

definition is_log :: "pyval \<Rightarrow> exc + bool" where
  "is_log code = code_in code [LOG_DEB, LOG_INF, LOG_WAR, LOG_ERR]"

text \<open>
  The methods the class body defines, by name. Looking up any other method
  name on the class raises \<open>AttributeError\<close>.
\<close>

definition ResponseCode_methods :: "(string \<times> (pyval \<Rightarrow> exc + bool)) list" where
  "ResponseCode_methods =
     [(''is_auth'', is_auth),
      (''is_net'', \<lambda>code. Inr (is_net code)),
      (''is_file'', is_file),
      (''is_log'', is_log)]"

definition ResponseCode_getattr :: "string \<Rightarrow> exc + (pyval \<Rightarrow> exc + bool)" where
  "ResponseCode_getattr name =
     (case map_of ResponseCode_methods name of
        None \<Rightarrow> Inl (AttributeError name)
      | Some m \<Rightarrow> Inr m)"

section \<open>Server state and effects\<close>

text \<open>
  A connection unit is an object with an identity (its transport) and a login.
  The effects of the server on its collaborators are recorded in a trace:
  envelopes sent, disconnects, log records, the store being stopped. The
  handshake timeout is not a field of the state: what the bounded wait yields
  is an input of the handshake.
\<close>

record cl_unit =
  uid :: nat
  login :: pyval

datatype listener = Listening | Closed

datatype peer_text =
    Plain string
  | StrOf exc
  | Unexpected exc

datatype pytype =
    TyAny | TyBool | TyInt | TyStr | TyList | TyDict | TyClUnit | TyGeneric

datatype level = Debug | Info | Error

datatype log_msg =
    FuncNotFound pyval
  | TypeMismatch string pytype pyval
  | CallError pyval exc
  | IsConnected pyval
  | IsDisconnected pyval
  | ServerStop

datatype event =
    Sent nat response_code "(string \<times> pyval) list"
  | SentLogError nat peer_text
  | Disconnect nat
  | DisconnectScheduled nat
  | StoreStopped
  | Log level log_msg

record world =
  cl_units :: "(pyval \<times> cl_unit) list"
  server :: "listener option"
  is_online :: bool
  server_name :: string
  allow_registration :: bool
  max_players :: int
  trace :: "event list"

definition emit :: "event \<Rightarrow> world \<Rightarrow> world" where
  "emit ev w = w\<lparr>trace := trace w @ [ev]\<rparr>"

definition logger :: "level \<Rightarrow> log_msg \<Rightarrow> world \<Rightarrow> world" where
  "logger lvl m w = emit (Log lvl m) w"

text \<open>
  Modelled from the spec: the connection unit's class (cl\_unit.py) is not
  among the sources. Its interface is \<open>sendEnvelope(code, fields)\<close>,
  \<open>receiveEnvelope()\<close> and an idempotent \<open>disconnect()\<close>; sending and
  disconnecting are recorded and do not fail, and what a receive yields is an
  input of the model.
\<close>

definition send_package :: "cl_unit \<Rightarrow> response_code \<Rightarrow> (string \<times> pyval) list \<Rightarrow> world \<Rightarrow> world" where
  "send_package u c kw w = emit (Sent (uid u) c kw) w"

definition send_log_error :: "cl_unit \<Rightarrow> peer_text \<Rightarrow> world \<Rightarrow> world" where
  "send_log_error u m w = emit (SentLogError (uid u) m) w"

definition disconnect :: "cl_unit \<Rightarrow> world \<Rightarrow> world" where
  "disconnect u w = emit (Disconnect (uid u)) w"

datatype recv = Package pyval | Raises exc

section \<open>The function registry and dispatch (Server.\_call\_func)\<close>

text \<open>
  A registered function, as dispatch sees it: the parameter names of its
  signature (\<open>inspect.signature(func).parameters\<close>, the first parameter
  included), its resolved annotations (\<open>get_type_hints(func)\<close>), and what
  calling it as \<open>func(cls, **valid_kwargs)\<close> does: it may change the
  server's state and it returns or raises. Binding the arguments is part of
  the call, and an awaited coroutine function behaves like a plain call here.
  The registry is filled at setup and only read afterwards, so it is kept
  apart from the state the functions may change.
\<close>

record net_func =
  parameters :: "string list"
  type_hints :: "(string \<times> pytype) list"
  call :: "(string \<times> pyval) list \<Rightarrow> world \<Rightarrow> exc option \<times> world"

type_synonym registry = "(string \<times> net_func) list"

text \<open>
  \<open>isinstance(value, expected)\<close>. \<open>typing.Any\<close> and a subscripted
  generic such as \<open>List[int]\<close> refuse instance checks with \<open>TypeError\<close>.
\<close>

fun isinstance :: "pyval \<Rightarrow> pytype \<Rightarrow> exc + bool" where
  "isinstance v TyAny = Inl (TypeError ''typing.Any cannot be used with isinstance()'')"
| "isinstance v TyGeneric =
     Inl (TypeError ''Subscripted generics cannot be used with class and instance checks'')"
| "isinstance v TyBool = Inr (case v of PBool b \<Rightarrow> True | _ \<Rightarrow> False)"
| "isinstance v TyInt = Inr (case v of PBool b \<Rightarrow> True | PInt i \<Rightarrow> True | _ \<Rightarrow> False)"
| "isinstance v TyStr = Inr (case v of PStr s \<Rightarrow> True | _ \<Rightarrow> False)"
| "isinstance v TyList = Inr (case v of PList xs \<Rightarrow> True | _ \<Rightarrow> False)"
| "isinstance v TyDict = Inr (case v of PDict d \<Rightarrow> True | _ \<Rightarrow> False)"
| "isinstance v TyClUnit = Inr (case v of PObj n \<Rightarrow> True | _ \<Rightarrow> False)"

text \<open>\<open>cls._network_funcs.get(func_name)\<close>: the key is hashed first.\<close>

definition network_funcs_get :: "registry \<Rightarrow> pyval \<Rightarrow> exc + net_func option" where
  "network_funcs_get reg func_name =
     (if \<not> hashable func_name then Inl (TypeError ''unhashable type'')
      else Inr (case func_name of PStr s \<Rightarrow> map_of reg s | _ \<Rightarrow> None))"

text \<open>The dictionary comprehension of line 50.\<close>

definition valid_kwargs :: "string list \<Rightarrow> (string \<times> pyval) list \<Rightarrow> (string \<times> pyval) list" where
  "valid_kwargs params kwargs = filter (\<lambda>(k, v). k \<in> set params) kwargs"

text \<open>
  The loop of lines 54 to 60. The condition is
  \<open>not isinstance(arg_value, expected_type) and expected_type is not Any\<close>:
  the instance check is evaluated first. The result is the exception raised,
  or the first mismatch found, or neither.
\<close>

fun check_types ::
  "(string \<times> pytype) list \<Rightarrow> (string \<times> pyval) list \<Rightarrow> exc + (string \<times> pytype \<times> pyval) option" where
  "check_types hints [] = Inr None"
| "check_types hints ((arg_name, arg_value) # rest) =
     (let expected_type = (case map_of hints arg_name of None \<Rightarrow> TyAny | Some t \<Rightarrow> t) in
      case isinstance arg_value expected_type of
        Inl e \<Rightarrow> Inl e
      | Inr b \<Rightarrow>
          if \<not> b \<and> expected_type \<noteq> TyAny
          then Inr (Some (arg_name, expected_type, arg_value))
          else check_types hints rest)"

text \<open>
  \<open>_call_func(func_name, **kwargs)\<close>. The first component of the result is
  the exception that reaches the caller, if any.
\<close>

definition call_func ::
  "registry \<Rightarrow> pyval \<Rightarrow> (string \<times> pyval) list \<Rightarrow> world \<Rightarrow> exc option \<times> world" where
  "call_func reg func_name kwargs w =
     (case network_funcs_get reg func_name of
        Inl e \<Rightarrow> (Some e, w)
      | Inr None \<Rightarrow> (None, logger Debug (FuncNotFound func_name) w)
      | Inr (Some func) \<Rightarrow>
          (let valid = valid_kwargs (parameters func) kwargs in
           case check_types (type_hints func) valid of
             Inl e \<Rightarrow> (Some e, w)
           | Inr (Some (arg_name, expected_type, arg_value)) \<Rightarrow>
               (None, logger Error (TypeMismatch arg_name expected_type arg_value) w)
           | Inr None \<Rightarrow>
               (case call func valid w of
                  (None, w') \<Rightarrow> (None, w')
                | (Some e, w') \<Rightarrow>
                    if is_Exception e then (None, logger Error (CallError func_name e) w')
                    else (Some e, w'))))"

section \<open>The authentication handshake (Server.\_auth)\<close>

text \<open>
  What the environment answers during one handshake: the outcome of the
  bounded wait for the reply (a \<open>TimeoutError\<close> is one of the exceptions it
  may raise), and the outcome of the store's \<open>add_user\<close> or
  \<open>login_user\<close> (the store is not among the sources; it raises or returns).
\<close>

record auth_io =
  reply :: recv
  store_result :: "exc option"

text \<open>
  Lines 250 and 251, and 254 and 255: the store is asked first, and the login
  is adopted only when it returns. Lines 257 to 259 then send the serve answer.
\<close>

definition store_and_adopt :: "cl_unit \<Rightarrow> pyval \<Rightarrow> auth_io \<Rightarrow> exc + cl_unit" where
  "store_and_adopt u login_v io =
     (case store_result io of
        Some e \<Rightarrow> Inl e
      | None \<Rightarrow> Inr (u\<lparr>login := login_v\<rparr>))"

definition serve_answer :: "exc + cl_unit \<Rightarrow> world \<Rightarrow> (exc + cl_unit) \<times> world" where
  "serve_answer r w =
     (case r of
        Inl e \<Rightarrow> (Inl e, w)
      | Inr u \<Rightarrow> (Inr u, send_package u AUTH_ANS_SERVE [(''server_name'', PStr (server_name w))] w))"

definition auth :: "cl_unit \<Rightarrow> auth_io \<Rightarrow> world \<Rightarrow> (exc + cl_unit) \<times> world" where
  "auth u io w =
     (if max_players w \<noteq> - 1 \<and> max_players w \<le> int (length (cl_units w))
      then (Inl (ValueError ''Server is full.''), w)
      else
        let w1 = send_package u AUTH_REQ [] w in
        case reply io of
          Raises e \<Rightarrow> (Inl e, w1)
        | Package receive_package \<Rightarrow>
            (case receive_package of
               PDict d \<Rightarrow>
                 (let code = dict_get d ''code'' PNone in
                  if \<not> truthy code
                  then (Inl (ValueError ''Receive data must has 'code' key.''), w1)
                  else
                    case ResponseCode code of
                      Inl e \<Rightarrow> (Inl e, w1)
                    | Inr c \<Rightarrow>
                        (case ResponseCode_getattr ''is_client_auth'' of
                           Inl e \<Rightarrow> (Inl e, w1)
                         | Inr is_client_auth \<Rightarrow>
                             (case is_client_auth (PInt (value_of c)) of
                                Inl e \<Rightarrow> (Inl e, w1)
                              | Inr ok \<Rightarrow>
                                  if \<not> ok
                                  then (Inl (ValueError ''Unknown 'code' for auth type.''), w1)
                                  else
                                    let login_v = dict_get d ''login'' PNone;
                                        password = dict_get d ''password'' PNone in
                                    if \<not> (truthy login_v \<and> truthy password)
                                    then (Inl (ValueError
                                      ''Receive data must has 'login' and 'password' keys.''), w1)
                                    else if c = AUTH_ANS_REGIS
                                    then
                                      (if \<not> allow_registration w1
                                       then (Inl (ValueError ''Registration is not allowed.''), w1)
                                       else serve_answer (store_and_adopt u login_v io) w1)
                                    else serve_answer (store_and_adopt u login_v io) w1)))
             | _ \<Rightarrow> (Inl (ValueError ''Receive data type expected dict.''), w1)))"

section \<open>The connection handler (Server.\_cl\_handler)\<close>

text \<open>
  One pass through the body of the \<open>while\<close> loop, lines 182 to 201, given
  what \<open>receive_package()\<close> yields. The call of line 194 passes
  \<open>cl_unit=cl_unit\<close> and the remaining fields as keywords; a field named
  like one of the call's own arguments makes the call itself a
  \<open>TypeError\<close>.
\<close>

definition loop_iteration :: "registry \<Rightarrow> cl_unit \<Rightarrow> recv \<Rightarrow> world \<Rightarrow> exc option \<times> world" where
  "loop_iteration reg u r w =
     (case r of
        Raises e \<Rightarrow> (Some e, w)
      | Package receive_package \<Rightarrow>
          (case receive_package of
             PDict d \<Rightarrow>
               (let code = dict_get d ''code'' PNone;
                    d1 = dict_pop ''code'' d in
                if \<not> truthy code
                then (None, send_log_error u (Plain ''Receive data must has 'code' key.'') w)
                else if is_net code
                then
                  (let func_name = dict_get d1 ''net_func_name'' PNone;
                       d2 = dict_pop ''net_func_name'' d1 in
                   if ''cl_unit'' \<in> fst ` set d2 \<or> ''func_name'' \<in> fst ` set d2
                      \<or> ''cls'' \<in> fst ` set d2
                   then (Some (TypeError ''got multiple values for argument''), w)
                   else call_func reg func_name ((''cl_unit'', PObj (uid u)) # d2) w)
                else (None, send_log_error u (Plain ''Unknown 'code' for net type.'') w))
           | _ \<Rightarrow> (None, send_log_error u (Plain ''Receive data type expected dict.'') w)))"

text \<open>
  The \<open>while cls._is_online\<close> loop, driven by the list of what the
  successive receives yield. The result is \<open>None\<close> when the list is used up
  with the server still online: the task is then still waiting in
  \<open>receive_package()\<close>. Otherwise it is the exception that left the loop, if
  any, and the state.
\<close>

fun message_loop ::
  "registry \<Rightarrow> cl_unit \<Rightarrow> recv list \<Rightarrow> world \<Rightarrow> (exc option \<times> world) option" where
  "message_loop reg u [] w = (if is_online w then None else Some (None, w))"
| "message_loop reg u (r # rest) w =
     (if \<not> is_online w then Some (None, w)
      else
        case loop_iteration reg u r w of
          (Some e, w') \<Rightarrow> Some (Some e, w')
        | (None, w') \<Rightarrow> message_loop reg u rest w')"

text \<open>The \<open>finally\<close> block, lines 215 to 217.\<close>

definition cl_finally :: "cl_unit \<Rightarrow> world \<Rightarrow> exc option \<times> world" where
  "cl_finally u w =
     (if \<not> hashable (login u) then (Some (TypeError ''unhashable type''), w)
      else (None,
        logger Info (IsDisconnected (login u))
          (disconnect u (w\<lparr>cl_units := AList.delete (py_key (login u)) (cl_units w)\<rparr>))))"

text \<open>The \<open>except\<close> clauses of lines 203 to 212, for an exception leaving the loop.\<close>

definition loop_except :: "cl_unit \<Rightarrow> exc \<Rightarrow> world \<Rightarrow> exc option \<times> world" where
  "loop_except u e w =
     (if is_disconnect_class e then (None, w)
      else if is_Exception e then (None, send_log_error u (Unexpected e) w)
      else (Some e, w))"

text \<open>
  Lines 177 and 178: plain key assignment into the live set. The key is
  hashed, so a login that is a list or a mapping raises \<open>TypeError\<close> here,
  outside any \<open>try\<close>.
\<close>

definition cl_register :: "cl_unit \<Rightarrow> world \<Rightarrow> exc + world" where
  "cl_register u w =
     (if \<not> hashable (login u) then Inl (TypeError ''unhashable type'')
      else Inr (logger Info (IsConnected (login u))
                  (w\<lparr>cl_units := AList.update (py_key (login u)) u (cl_units w)\<rparr>)))"

text \<open>
  Lines 177 to 217: the authenticated unit is entered into the live set under
  its login, the loop runs, and the \<open>finally\<close> block ends it. An exception
  the \<open>except\<close> clauses do not catch is raised again after the
  \<open>finally\<close> block.
\<close>

definition cl_serve ::
  "registry \<Rightarrow> cl_unit \<Rightarrow> recv list \<Rightarrow> world \<Rightarrow> (exc option \<times> world) option" where
  "cl_serve reg u script w =
     (case cl_register u w of
        Inl e \<Rightarrow> Some (Some e, w)
      | Inr w1 \<Rightarrow>
          (case message_loop reg u script w1 of
             None \<Rightarrow> None
           | Some (raised, w2) \<Rightarrow>
               (let (pending, w3) =
                      (case raised of None \<Rightarrow> (None, w2) | Some e \<Rightarrow> loop_except u e w2);
                    (r, w4) = cl_finally u w3
                in Some (case r of Some e \<Rightarrow> Some e | None \<Rightarrow> pending, w4))))"

text \<open>
  The whole handler for an accepted transport \<open>n\<close>: the unit is created
  with the login \<open>init\<close>, the handshake runs, and its failures are answered
  by the three \<open>except\<close> clauses of lines 162 to 175.
\<close>

definition cl_handler ::
  "registry \<Rightarrow> nat \<Rightarrow> auth_io \<Rightarrow> recv list \<Rightarrow> world \<Rightarrow> (exc option \<times> world) option" where
  "cl_handler reg n io script w =
     (let cl_unit = \<lparr>uid = n, login = PStr ''init''\<rparr> in
      case auth cl_unit io w of
        (Inl e, w1) \<Rightarrow>
          if e = TimeoutError
          then Some (None, disconnect cl_unit (send_log_error cl_unit (Plain ''Timeout for auth.'') w1))
          else if is_ValueError e
          then Some (None, disconnect cl_unit (send_log_error cl_unit (StrOf e) w1))
          else if is_Exception e
          then Some (None, disconnect cl_unit (send_log_error cl_unit (Unexpected e) w1))
          else Some (Some e, w1)
      | (Inr u, w1) \<Rightarrow> cl_serve reg u script w1)"

section \<open>Shutdown (Server.stop)\<close>

text \<open>
  What the environment answers during \<open>stop()\<close>: the outcomes of waiting
  for the listener to close and of stopping the store.
\<close>

record stop_io =
  wait_closed_result :: "exc option"
  store_stop_result :: "exc option"

text \<open>
  Line 129 hands one \<open>disconnect()\<close> per live unit to \<open>asyncio.gather\<close>
  and does not await the result: each disconnect is issued, not waited for.
\<close>

definition gather_disconnect :: "cl_unit list \<Rightarrow> world \<Rightarrow> world" where
  "gather_disconnect us w = w\<lparr>trace := trace w @ map (\<lambda>u. DisconnectScheduled (uid u)) us\<rparr>"

text \<open>Lines 129 to 137, which run once the online flag has been cleared.\<close>

definition stop_steps :: "stop_io \<Rightarrow> world \<Rightarrow> exc option \<times> world" where
  "stop_steps io w1 =
     (let w2 = gather_disconnect (map snd (cl_units w1)) w1;
          w3 = w2\<lparr>cl_units := []\<rparr>;
          (r, w4) = (case server w3 of
                       None \<Rightarrow> (None, w3)
                     | Some l \<Rightarrow> (wait_closed_result io, w3\<lparr>server := Some Closed\<rparr>))
      in case r of
           Some e \<Rightarrow> (Some e, w4)
         | None \<Rightarrow>
             (case store_stop_result io of
                Some e \<Rightarrow> (Some e, w4)
              | None \<Rightarrow> (None, logger Info ServerStop (emit StoreStopped w4))))"

definition stop :: "stop_io \<Rightarrow> world \<Rightarrow> exc option \<times> world" where
  "stop io w =
     (if \<not> is_online w then (Some (RuntimeError ''Server is not working.''), w)
      else stop_steps io (w\<lparr>is_online := False\<rparr>))"

section \<open>Concrete states and functions used in the examples\<close>

definition example_world :: world where
  "example_world =
     \<lparr>cl_units = [], server = Some Listening, is_online = True,
      server_name = ''Dev_Server'', allow_registration = True, max_players = - 1,
      trace = []\<rparr>"

definition alice :: cl_unit where
  "alice = \<lparr>uid = 1, login = PStr ''alice''\<rparr>"

definition bob :: cl_unit where
  "bob = \<lparr>uid = 2, login = PStr ''bob''\<rparr>"

definition alice_again :: cl_unit where
  "alice_again = \<lparr>uid = 3, login = PStr ''alice''\<rparr>"

text \<open>
  \<open>def net_ping(cls, cl_unit: ClUnit)\<close>, which answers the caller, and
  \<open>def net_echo(cls, cl_unit: ClUnit, text)\<close>, whose last parameter has no
  annotation.
\<close>

definition ping_func :: net_func where
  "ping_func =
     \<lparr>parameters = [''cls'', ''cl_unit''],
      type_hints = [(''cl_unit'', TyClUnit)],
      call = (\<lambda>kwargs w.
        case map_of kwargs ''cl_unit'' of
          Some (PObj n) \<Rightarrow> (None, emit (Sent n NET_REQ [(''answer'', PStr ''pong'')]) w)
        | _ \<Rightarrow> (Some (TypeError ''missing 1 required positional argument''), w))\<rparr>"

definition echo_func :: net_func where
  "echo_func =
     \<lparr>parameters = [''cls'', ''cl_unit'', ''text''],
      type_hints = [(''cl_unit'', TyClUnit)],
      call = (\<lambda>kwargs w.
        case (map_of kwargs ''cl_unit'', map_of kwargs ''text'') of
          (Some (PObj n), Some t) \<Rightarrow> (None, emit (Sent n NET_REQ [(''text'', t)]) w)
        | _ \<Rightarrow> (Some (TypeError ''missing 1 required positional argument''), w))\<rparr>"

definition example_registry :: registry where
  "example_registry = [(''ping'', ping_func), (''echo'', echo_func)]"

section \<open>Dispatch of an unknown method\<close>

lemma keys_after_pops:
  "k \<notin> fst ` set d \<Longrightarrow> k \<notin> fst ` set (dict_pop a (dict_pop b d))"
  using dom_delete_subset [of a "AList.delete b d"] dom_delete_subset [of b d]
  by (auto simp: dict_pop_def)

text \<open>
  An envelope of the remote-procedure-call band whose fields do not collide
  with the arguments of the dispatch call is handed to \<open>call_func\<close>.
\<close>

lemma loop_iteration_net:
  assumes "map_of d ''code'' = Some (PInt 20)"
    and "''cl_unit'' \<notin> fst ` set d" and "''func_name'' \<notin> fst ` set d"
    and "''cls'' \<notin> fst ` set d"
  shows "loop_iteration reg u (Package (PDict d)) w
       = call_func reg (dict_get (dict_pop ''code'' d) ''net_func_name'' PNone)
           ((''cl_unit'', PObj (uid u)) # dict_pop ''net_func_name'' (dict_pop ''code'' d)) w"
  using assms keys_after_pops [of _ d "''net_func_name''" "''code''"]
  by (simp add: loop_iteration_def dict_get_def is_net_def Let_def)

lemma network_funcs_get_absent:
  assumes "hashable name" and "name \<notin> PStr ` fst ` set reg"
  shows "network_funcs_get reg name = Inr None"
proof (cases name)
  case (PStr s)
  then have "s \<notin> fst ` set reg" using assms(2) by auto
  then have "map_of reg s = None" by (simp add: map_of_eq_None_iff)
  then show ?thesis using PStr by (simp add: network_funcs_get_def)
qed (use assms(1) in \<open>simp_all add: network_funcs_get_def\<close>)

text \<open>
  C6, as amended. For a hashable method name (a string, \<open>None\<close>, a number)
  that is not a key of the registry, dispatch returns without raising: its
  only effect is one debug log record, so no function is invoked and nothing
  is sent; the live set and the online flag are as before. In the message
  loop, an envelope of the remote-procedure-call band that names such a method
  and has no field called \<open>cl_unit\<close>, \<open>func_name\<close> or \<open>cls\<close>
  leaves the connection open: the pass raises nothing, and the loop goes on
  to the next receive, so an exception raised by that receive is what ends it.
\<close>

theorem call_func_unknown_name_is_noop:
  assumes "hashable name" and "name \<notin> PStr ` fst ` set reg"
  shows "call_func reg name kwargs w = (None, logger Debug (FuncNotFound name) w)
     \<and> trace (snd (call_func reg name kwargs w)) = trace w @ [Log Debug (FuncNotFound name)]
     \<and> cl_units (snd (call_func reg name kwargs w)) = cl_units w
     \<and> is_online (snd (call_func reg name kwargs w)) = is_online w
     \<and> (is_online w \<and> map_of d ''code'' = Some (PInt 20)
          \<and> dict_get d ''net_func_name'' PNone = name
          \<and> ''cl_unit'' \<notin> fst ` set d \<and> ''func_name'' \<notin> fst ` set d \<and> ''cls'' \<notin> fst ` set d
        \<longrightarrow> loop_iteration reg u (Package (PDict d)) w
              = (None, logger Debug (FuncNotFound name) w)
          \<and> message_loop reg u (Package (PDict d) # rest) w
              = message_loop reg u rest (logger Debug (FuncNotFound name) w)
          \<and> message_loop reg u [Package (PDict d), Raises e] w
              = Some (Some e, logger Debug (FuncNotFound name) w))"
proof -
  have eq: "call_func reg name kwargs w = (None, logger Debug (FuncNotFound name) w)"
    for kwargs
    using network_funcs_get_absent [OF assms] by (simp add: call_func_def)
  have name: "dict_get (dict_pop ''code'' d) ''net_func_name'' PNone
      = dict_get d ''net_func_name'' PNone"
    by (simp add: dict_get_def dict_pop_def delete_conv')
  have on: "is_online (logger Debug (FuncNotFound name) w) = is_online w"
    by (simp add: logger_def emit_def)
  have step: "loop_iteration reg u (Package (PDict d)) w
      = (None, logger Debug (FuncNotFound name) w)"
    if "map_of d ''code'' = Some (PInt 20)" "dict_get d ''net_func_name'' PNone = name"
      "''cl_unit'' \<notin> fst ` set d" "''func_name'' \<notin> fst ` set d" "''cls'' \<notin> fst ` set d"
    using that eq name by (simp add: loop_iteration_net)
  have raise: "loop_iteration reg u (Raises e) w' = (Some e, w')" for w'
    by (simp add: loop_iteration_def)
  show ?thesis
    using eq step raise on by (auto simp: logger_def emit_def)
qed

theorem call_func_unknown_name_is_noop_witness:
  "hashable (PStr ''legacy'') \<and> PStr ''legacy'' \<notin> PStr ` fst ` set example_registry
   \<and> call_func example_registry (PStr ''legacy'') [(''x'', PInt 1)] example_world
     = (None, example_world\<lparr>trace := [Log Debug (FuncNotFound (PStr ''legacy''))]\<rparr>)
   \<and> message_loop example_registry alice
        [Package (PDict [(''code'', PInt 20), (''net_func_name'', PStr ''legacy''), (''x'', PInt 1)]),
         Raises ConnectionResetError]
        example_world
     = Some (Some ConnectionResetError,
         example_world\<lparr>trace := [Log Debug (FuncNotFound (PStr ''legacy''))]\<rparr>)"
proof -
  have h: "hashable (PStr ''legacy'')" by simp
  have a: "PStr ''legacy'' \<notin> PStr ` fst ` set example_registry"
    by (simp add: example_registry_def)
  have on: "is_online example_world" by (simp add: example_world_def)
  note t = call_func_unknown_name_is_noop [OF h a, of "[(''x'', PInt 1)]" example_world
      "[(''code'', PInt 20), (''net_func_name'', PStr ''legacy''), (''x'', PInt 1)]" alice "[]"
      ConnectionResetError]
  show ?thesis using h a on t
    by (simp add: logger_def emit_def example_world_def example_registry_def
        loop_iteration_def call_func_def network_funcs_get_def dict_get_def dict_pop_def
        is_net_def Let_def)
qed

text \<open>
  C6 as first stated fails. A name that is a list is in no registry, yet
  \<open>cls._network_funcs.get(func_name)\<close> hashes it and raises
  \<open>TypeError\<close> (the parameter is declared \<open>func_name: str\<close>); the
  message loop answers with the unexpected-error log and closes the
  connection. The same happens for an absent string name when the envelope
  carries a field \<open>cls\<close>, which collides with the arguments of the call on
  line 194.
\<close>

theorem call_func_unhashable_name_raises:
  "PList [PStr ''legacy''] \<notin> PStr ` fst ` set example_registry
   \<and> call_func example_registry (PList [PStr ''legacy'']) [(''cl_unit'', PObj 1)] example_world
     = (Some (TypeError ''unhashable type''), example_world)
   \<and> cl_serve example_registry alice
       [Package (PDict [(''code'', PInt 20), (''net_func_name'', PList [PStr ''legacy''])])]
       example_world
     = Some (None, example_world\<lparr>trace :=
        [Log Info (IsConnected (PStr ''alice'')),
         SentLogError 1 (Unexpected (TypeError ''unhashable type'')),
         Disconnect 1, Log Info (IsDisconnected (PStr ''alice''))]\<rparr>)
   \<and> cl_serve example_registry alice
       [Package (PDict [(''code'', PInt 20), (''net_func_name'', PStr ''legacy''),
                        (''cls'', PInt 1)])]
       example_world
     = Some (None, example_world\<lparr>trace :=
        [Log Info (IsConnected (PStr ''alice'')),
         SentLogError 1 (Unexpected (TypeError ''got multiple values for argument'')),
         Disconnect 1, Log Info (IsDisconnected (PStr ''alice''))]\<rparr>)"
  by (auto simp: call_func_def network_funcs_get_def example_registry_def
      cl_serve_def cl_register_def cl_finally_def loop_except_def
      loop_iteration_def dict_get_def dict_pop_def is_net_def Let_def
      logger_def disconnect_def send_log_error_def emit_def alice_def example_world_def)

section \<open>Dispatch of a registered function\<close>

lemma map_of_valid_kwargs:
  "map_of (valid_kwargs ps kw) k = (if k \<in> set ps then map_of kw k else None)"
  by (induction kw) (auto simp: valid_kwargs_def)

lemma call_func_registered:
  "map_of reg s = Some f \<Longrightarrow>
   call_func reg (PStr s) kw w =
     (case check_types (type_hints f) (valid_kwargs (parameters f) kw) of
        Inl e \<Rightarrow> (Some e, w)
      | Inr (Some (arg_name, expected_type, arg_value)) \<Rightarrow>
          (None, logger Error (TypeMismatch arg_name expected_type arg_value) w)
      | Inr None \<Rightarrow>
          (case call f (valid_kwargs (parameters f) kw) w of
             (None, w') \<Rightarrow> (None, w')
           | (Some e, w') \<Rightarrow>
               if is_Exception e then (None, logger Error (CallError (PStr s) e) w')
               else (Some e, w')))"
  by (simp add: call_func_def network_funcs_get_def Let_def)

lemma call_func_depends_on_valid:
  "map_of reg s = Some f \<Longrightarrow>
   valid_kwargs (parameters f) kw = valid_kwargs (parameters f) kw' \<Longrightarrow>
   call_func reg (PStr s) kw w = call_func reg (PStr s) kw' w"
  by (simp add: call_func_def network_funcs_get_def)

lemma valid_kwargs_idem: "valid_kwargs ps (valid_kwargs ps kw) = valid_kwargs ps kw"
  by (simp add: valid_kwargs_def)

lemma valid_kwargs_undeclared:
  "k \<notin> set ps \<Longrightarrow> valid_kwargs ps ((k, v) # kw) = valid_kwargs ps kw"
  by (simp add: valid_kwargs_def)

text \<open>
  C7. When a registered function is dispatched, the keyword arguments handed
  to it are the given ones restricted to the names among its declared
  parameters: each declared name keeps its value, each undeclared name is
  dropped. When the type check finds nothing, the function is called with
  exactly these. An undeclared key has no influence on the outcome of
  dispatch, so it alone never prevents the call.
\<close>

theorem call_func_passes_declared_kwargs:
  assumes "map_of reg s = Some f"
  shows "(\<forall>k. map_of (valid_kwargs (parameters f) kwargs) k
            = (if k \<in> set (parameters f) then map_of kwargs k else None))
     \<and> (check_types (type_hints f) (valid_kwargs (parameters f) kwargs) = Inr None \<longrightarrow>
          call_func reg (PStr s) kwargs w =
            (case call f (valid_kwargs (parameters f) kwargs) w of
               (None, w') \<Rightarrow> (None, w')
             | (Some e, w') \<Rightarrow>
                 if is_Exception e then (None, logger Error (CallError (PStr s) e) w')
                 else (Some e, w')))
     \<and> (k' \<notin> set (parameters f) \<longrightarrow>
          call_func reg (PStr s) ((k', v) # kwargs) w = call_func reg (PStr s) kwargs w)
     \<and> call_func reg (PStr s) kwargs w
          = call_func reg (PStr s) (valid_kwargs (parameters f) kwargs) w"
proof -
  have passed: "check_types (type_hints f) (valid_kwargs (parameters f) kwargs) = Inr None \<Longrightarrow>
      call_func reg (PStr s) kwargs w =
        (case call f (valid_kwargs (parameters f) kwargs) w of
           (None, w') \<Rightarrow> (None, w')
         | (Some e, w') \<Rightarrow>
             if is_Exception e then (None, logger Error (CallError (PStr s) e) w')
             else (Some e, w'))"
    using assms by (simp add: call_func_registered)
  have undeclared: "k' \<notin> set (parameters f) \<Longrightarrow>
      call_func reg (PStr s) ((k', v) # kwargs) w = call_func reg (PStr s) kwargs w"
    by (rule call_func_depends_on_valid [OF assms]) (simp add: valid_kwargs_undeclared)
  have filtered: "call_func reg (PStr s) kwargs w
      = call_func reg (PStr s) (valid_kwargs (parameters f) kwargs) w"
    by (rule call_func_depends_on_valid [OF assms]) (simp add: valid_kwargs_idem)
  show ?thesis
    using passed undeclared filtered by (simp add: map_of_valid_kwargs)
qed

theorem call_func_passes_declared_kwargs_witness:
  "map_of example_registry ''ping'' = Some ping_func
   \<and> valid_kwargs (parameters ping_func) [(''cl_unit'', PObj 1), (''colour'', PStr ''red'')]
       = [(''cl_unit'', PObj 1)]
   \<and> call_func example_registry (PStr ''ping'')
        [(''cl_unit'', PObj 1), (''colour'', PStr ''red'')] example_world
     = (None, example_world\<lparr>trace := [Sent 1 NET_REQ [(''answer'', PStr ''pong'')]]\<rparr>)"
proof -
  have a: "map_of example_registry ''ping'' = Some ping_func"
    by (simp add: example_registry_def)
  have c: "check_types (type_hints ping_func)
      (valid_kwargs (parameters ping_func) [(''cl_unit'', PObj 1), (''colour'', PStr ''red'')]) = Inr None"
    by (simp add: ping_func_def valid_kwargs_def)
  note t = call_func_passes_declared_kwargs [OF a,
      of "[(''cl_unit'', PObj 1), (''colour'', PStr ''red'')]" example_world]
  show ?thesis using a c t
    by (simp add: ping_func_def valid_kwargs_def emit_def example_world_def)
qed

text \<open>
  C5, evaluated where it fails. \<open>net_echo\<close> declares the parameter
  \<open>text\<close> without an annotation, so its expected type defaults to
  \<open>Any\<close>. Line 56 evaluates \<open>isinstance(arg_value, Any)\<close> before it
  tests \<open>expected_type is not Any\<close>, and that instance check raises
  \<open>TypeError\<close> outside the \<open>try\<close> of lines 62 to 70: the exception
  reaches the caller. In the message loop it ends the connection.
\<close>

theorem call_func_unannotated_parameter_raises:
  "call_func example_registry (PStr ''echo'')
     [(''cl_unit'', PObj 1), (''text'', PStr ''hi'')] example_world
   = (Some (TypeError ''typing.Any cannot be used with isinstance()''), example_world)
   \<and> cl_serve example_registry alice
       [Package (PDict [(''code'', PInt 20), (''net_func_name'', PStr ''echo''),
                        (''text'', PStr ''hi'')])] example_world
   = Some (None, example_world\<lparr>trace :=
        [Log Info (IsConnected (PStr ''alice'')),
         SentLogError 1 (Unexpected (TypeError ''typing.Any cannot be used with isinstance()'')),
         Disconnect 1, Log Info (IsDisconnected (PStr ''alice''))]\<rparr>)"
  by (simp add: call_func_def network_funcs_get_def valid_kwargs_def example_registry_def
      echo_func_def cl_serve_def cl_register_def cl_finally_def loop_except_def
      loop_iteration_def dict_get_def dict_pop_def is_net_def Let_def
      logger_def disconnect_def send_log_error_def emit_def alice_def example_world_def)

section \<open>The message loop\<close>

text \<open>
  C8. For an envelope that is a mapping without a \<open>code\<close> field, one pass
  of the loop raises nothing and only sends the peer the error log
  \<open>Receive data must has 'code' key.\<close>: the state changes by that one
  trace entry, so the live set still holds the connection and nothing is
  disconnected. With the server online the loop goes on with the next receive:
  it ends with the exception that receive raises, the reply having been sent,
  and it is still waiting when nothing further arrives.
\<close>

theorem loop_missing_code_replies_and_continues:
  assumes "map_of d ''code'' = None"
  shows "loop_iteration reg u (Package (PDict d)) w
           = (None, send_log_error u (Plain ''Receive data must has 'code' key.'') w)
     \<and> (is_online w \<longrightarrow>
          message_loop reg u (Package (PDict d) # rest) w
            = message_loop reg u rest
                (send_log_error u (Plain ''Receive data must has 'code' key.'') w)
        \<and> message_loop reg u [Package (PDict d), Raises e] w
            = Some (Some e, send_log_error u (Plain ''Receive data must has 'code' key.'') w)
        \<and> message_loop reg u [Package (PDict d)] w = None)
     \<and> send_log_error u (Plain ''Receive data must has 'code' key.'') w
          = w\<lparr>trace := trace w @ [SentLogError (uid u) (Plain ''Receive data must has 'code' key.'')]\<rparr>"
  using assms by (simp add: loop_iteration_def dict_get_def send_log_error_def emit_def)

theorem loop_missing_code_replies_and_continues_witness:
  "map_of [(''net_func_name'', PStr ''ping'')] ''code'' = None
   \<and> is_online (example_world\<lparr>cl_units := [(PStr ''alice'', alice)]\<rparr>)
   \<and> loop_iteration example_registry alice (Package (PDict [(''net_func_name'', PStr ''ping'')]))
        (example_world\<lparr>cl_units := [(PStr ''alice'', alice)]\<rparr>)
     = (None, example_world\<lparr>cl_units := [(PStr ''alice'', alice)],
          trace := [SentLogError 1 (Plain ''Receive data must has 'code' key.'')]\<rparr>)
   \<and> message_loop example_registry alice
        [Package (PDict [(''net_func_name'', PStr ''ping'')]),
         Package (PDict [(''login'', PStr ''x'')]), Raises ConnectionResetError]
        (example_world\<lparr>cl_units := [(PStr ''alice'', alice)]\<rparr>)
     = Some (Some ConnectionResetError,
         example_world\<lparr>cl_units := [(PStr ''alice'', alice)],
          trace := [SentLogError 1 (Plain ''Receive data must has 'code' key.''),
                    SentLogError 1 (Plain ''Receive data must has 'code' key.'')]\<rparr>)"
proof -
  have a: "map_of [(''net_func_name'', PStr ''ping'')] ''code'' = None" by simp
  note t = loop_missing_code_replies_and_continues [OF a, of example_registry alice
      "example_world\<lparr>cl_units := [(PStr ''alice'', alice)]\<rparr>"
      "[Package (PDict [(''login'', PStr ''x'')]), Raises ConnectionResetError]"
      ConnectionResetError]
  show ?thesis using a t
    by (simp add: example_world_def alice_def loop_iteration_def dict_get_def
        send_log_error_def emit_def)
qed

text \<open>
  C10. An envelope whose \<open>code\<close> field is present but falsy is treated as
  one without the field: the loop gives the same result as for the envelope
  with the field removed, namely the error log
  \<open>Receive data must has 'code' key.\<close>, and so does the handshake, which
  fails with the \<open>ValueError\<close> of that text once the capacity check has
  passed.
\<close>

theorem falsy_code_is_missing_code:
  assumes "map_of d ''code'' = Some c" and "\<not> truthy c"
  shows "loop_iteration reg u (Package (PDict d)) w
           = loop_iteration reg u (Package (PDict (dict_pop ''code'' d))) w
     \<and> loop_iteration reg u (Package (PDict d)) w
           = (None, send_log_error u (Plain ''Receive data must has 'code' key.'') w)
     \<and> auth u \<lparr>reply = Package (PDict d), store_result = sr\<rparr> w
           = auth u \<lparr>reply = Package (PDict (dict_pop ''code'' d)), store_result = sr\<rparr> w
     \<and> (max_players w = - 1 \<or> int (length (cl_units w)) < max_players w \<longrightarrow>
          auth u \<lparr>reply = Package (PDict d), store_result = sr\<rparr> w
            = (Inl (ValueError ''Receive data must has 'code' key.''),
               send_package u AUTH_REQ [] w))"
  using assms
  by (auto simp: loop_iteration_def auth_def dict_get_def dict_pop_def delete_conv' Let_def)

theorem falsy_code_is_missing_code_witness:
  "map_of [(''code'', PInt 0), (''login'', PStr ''bob'')] ''code'' = Some (PInt 0)
   \<and> \<not> truthy (PInt 0)
   \<and> loop_iteration example_registry alice
        (Package (PDict [(''code'', PInt 0), (''login'', PStr ''bob'')])) example_world
     = (None, example_world\<lparr>trace := [SentLogError 1 (Plain ''Receive data must has 'code' key.'')]\<rparr>)
   \<and> auth alice \<lparr>reply = Package (PDict [(''code'', PInt 0), (''login'', PStr ''bob'')]),
                 store_result = None\<rparr> example_world
     = (Inl (ValueError ''Receive data must has 'code' key.''),
        example_world\<lparr>trace := [Sent 1 AUTH_REQ []]\<rparr>)"
proof -
  have a: "map_of [(''code'', PInt 0), (''login'', PStr ''bob'')] ''code'' = Some (PInt 0)" by simp
  have b: "\<not> truthy (PInt 0)" by simp
  note t1 = falsy_code_is_missing_code [OF a b, of example_registry alice example_world None]
  show ?thesis using a b t1
    by (simp add: example_world_def alice_def send_log_error_def send_package_def emit_def
        loop_iteration_def auth_def dict_get_def dict_pop_def Let_def)
qed

section \<open>The handshake\<close>

lemma getattr_is_client_auth:
  "ResponseCode_getattr ''is_client_auth'' = Inl (AttributeError ''is_client_auth'')"
  by (simp add: ResponseCode_getattr_def ResponseCode_methods_def)

lemma auth_never_adopts: "fst (auth u io w) \<noteq> Inr u'"
  by (auto simp: auth_def getattr_is_client_auth Let_def
      split: recv.splits pyval.splits sum.splits)

text \<open>
  C1, evaluated where it fails. Line 238 calls
  \<open>ResponseCode.is_client_auth\<close>, a method the enumeration does not
  define (it defines \<open>is_auth\<close>, \<open>is_net\<close>, \<open>is_file\<close> and
  \<open>is_log\<close>). For the login answer code 11 with a login and a password the
  lookup raises \<open>AttributeError\<close>; the handler answers with the
  unexpected-error log and disconnects. The code does not pass validation.
\<close>

theorem auth_login_answer_raises:
  "auth \<lparr>uid = 7, login = PStr ''init''\<rparr>
     \<lparr>reply = Package (PDict [(''code'', PInt 11), (''login'', PStr ''bob''),
                              (''password'', PStr ''pw'')]),
      store_result = None\<rparr> example_world
   = (Inl (AttributeError ''is_client_auth''),
      example_world\<lparr>trace := [Sent 7 AUTH_REQ []]\<rparr>)
   \<and> auth \<lparr>uid = 7, login = PStr ''init''\<rparr>
     \<lparr>reply = Package (PDict [(''code'', PInt 12), (''login'', PStr ''bob''),
                              (''password'', PStr ''pw'')]),
      store_result = None\<rparr> example_world
   = (Inl (AttributeError ''is_client_auth''),
      example_world\<lparr>trace := [Sent 7 AUTH_REQ []]\<rparr>)
   \<and> cl_handler example_registry 7
     \<lparr>reply = Package (PDict [(''code'', PInt 11), (''login'', PStr ''bob''),
                              (''password'', PStr ''pw'')]),
      store_result = None\<rparr> [] example_world
   = Some (None, example_world\<lparr>trace :=
        [Sent 7 AUTH_REQ [], SentLogError 7 (Unexpected (AttributeError ''is_client_auth'')),
         Disconnect 7]\<rparr>)"
  by (simp add: cl_handler_def auth_def example_world_def getattr_is_client_auth dict_get_def
      ResponseCode_def members_def Let_def send_package_def send_log_error_def disconnect_def
      emit_def)

lemma auth_sends_request_first:
  "\<not> (max_players w \<noteq> - 1 \<and> max_players w \<le> int (length (cl_units w))) \<Longrightarrow>
   \<exists>rest. trace (snd (auth u io w)) = trace w @ Sent (uid u) AUTH_REQ [] # rest"
  by (auto simp: auth_def getattr_is_client_auth send_package_def emit_def Let_def
      split: recv.splits pyval.splits sum.splits)

lemma auth_unlimited_ignores_live_set:
  "max_players w = - 1 \<Longrightarrow> fst (auth u io (w\<lparr>cl_units := cs\<rparr>)) = fst (auth u io w)"
  by (auto simp: auth_def getattr_is_client_auth Let_def
      split: recv.splits pyval.splits sum.splits)

lemma auth_unlimited_never_full:
  "max_players w = - 1 \<Longrightarrow> reply io \<noteq> Raises (ValueError ''Server is full.'') \<Longrightarrow>
   fst (auth u io w) \<noteq> Inl (ValueError ''Server is full.'')"
  by (auto simp: auth_def getattr_is_client_auth Let_def ResponseCode_def
      split: recv.splits pyval.splits sum.splits option.splits)

text \<open>
  C4. When the maximum player count is not \<open>-1\<close> and is at most the number
  of live connections, the handshake raises \<open>ValueError("Server is full.")\<close>
  before anything is sent, and the handler answers with that text and a
  disconnect, leaving the live set as it was. When the count is \<open>-1\<close> the
  handshake always goes on to send the authentication request, its outcome
  does not depend on the live set at all, and it never is that capacity error
  (unless the receive itself raises a \<open>ValueError\<close> of the same text).
\<close>

theorem auth_capacity_check:
  "(max_players w \<noteq> - 1 \<and> max_players w \<le> int (length (cl_units w)) \<longrightarrow>
      auth u io w = (Inl (ValueError ''Server is full.''), w)
    \<and> cl_handler reg n io script w
        = Some (None, w\<lparr>trace := trace w @
            [SentLogError n (StrOf (ValueError ''Server is full.'')), Disconnect n]\<rparr>))
   \<and> (max_players w = - 1 \<longrightarrow>
        (\<exists>rest. trace (snd (auth u io w)) = trace w @ Sent (uid u) AUTH_REQ [] # rest)
      \<and> auth u io w \<noteq> (Inl (ValueError ''Server is full.''), w)
      \<and> fst (auth u io (w\<lparr>cl_units := cs\<rparr>)) = fst (auth u io w)
      \<and> (reply io \<noteq> Raises (ValueError ''Server is full.'') \<longrightarrow>
           fst (auth u io w) \<noteq> Inl (ValueError ''Server is full.'')))"
proof -
  have full: "auth u io w = (Inl (ValueError ''Server is full.''), w)"
    if "max_players w \<noteq> - 1 \<and> max_players w \<le> int (length (cl_units w))" for u
    using that by (simp add: auth_def)
  have handler: "cl_handler reg n io script w
        = Some (None, w\<lparr>trace := trace w @
            [SentLogError n (StrOf (ValueError ''Server is full.'')), Disconnect n]\<rparr>)"
    if "max_players w \<noteq> - 1 \<and> max_players w \<le> int (length (cl_units w))"
    using full [OF that]
    by (simp add: cl_handler_def Let_def send_log_error_def disconnect_def emit_def)
  have sentinel: "\<exists>rest. trace (snd (auth u io w)) = trace w @ Sent (uid u) AUTH_REQ [] # rest"
    if "max_players w = - 1"
    using that by (intro auth_sends_request_first) simp
  have differs: "auth u io w \<noteq> (Inl (ValueError ''Server is full.''), w)"
    if "max_players w = - 1"
    using sentinel [OF that] by auto
  show ?thesis
    using full handler sentinel differs
      auth_unlimited_ignores_live_set [of w u io cs] auth_unlimited_never_full [of w io u]
    by blast
qed

theorem auth_capacity_check_witness:
  "max_players (example_world\<lparr>max_players := 1, cl_units := [(PStr ''alice'', alice)]\<rparr>) \<noteq> - 1
   \<and> max_players (example_world\<lparr>max_players := 1, cl_units := [(PStr ''alice'', alice)]\<rparr>)
       \<le> int (length (cl_units
            (example_world\<lparr>max_players := 1, cl_units := [(PStr ''alice'', alice)]\<rparr>)))
   \<and> cl_handler example_registry 2 \<lparr>reply = Raises TimeoutError, store_result = None\<rparr> []
        (example_world\<lparr>max_players := 1, cl_units := [(PStr ''alice'', alice)]\<rparr>)
     = Some (None, example_world\<lparr>max_players := 1, cl_units := [(PStr ''alice'', alice)],
          trace := [SentLogError 2 (StrOf (ValueError ''Server is full.'')), Disconnect 2]\<rparr>)
   \<and> max_players (example_world\<lparr>cl_units := [(PStr ''alice'', alice)]\<rparr>) = - 1
   \<and> reply \<lparr>reply = Raises TimeoutError, store_result = None\<rparr>
       \<noteq> Raises (ValueError ''Server is full.'')
   \<and> auth bob \<lparr>reply = Raises TimeoutError, store_result = None\<rparr>
        (example_world\<lparr>cl_units := [(PStr ''alice'', alice)]\<rparr>)
     = (Inl TimeoutError, example_world\<lparr>cl_units := [(PStr ''alice'', alice)],
          trace := [Sent 2 AUTH_REQ []]\<rparr>)
   \<and> fst (auth bob \<lparr>reply = Raises TimeoutError, store_result = None\<rparr>
        (example_world\<lparr>cl_units := [(PStr ''alice'', alice), (PStr ''bob'', bob)]\<rparr>))
     = Inl TimeoutError"
proof -
  note t1 = auth_capacity_check
    [of "example_world\<lparr>max_players := 1, cl_units := [(PStr ''alice'', alice)]\<rparr>"
        bob "\<lparr>reply = Raises TimeoutError, store_result = None\<rparr>" example_registry 2 "[]"]
  note t2 = auth_capacity_check
    [of "example_world\<lparr>cl_units := [(PStr ''alice'', alice)]\<rparr>"
        bob "\<lparr>reply = Raises TimeoutError, store_result = None\<rparr>" example_registry 2 "[]"
        "[(PStr ''alice'', alice), (PStr ''bob'', bob)]"]
  show ?thesis using t1 t2
    by (simp add: cl_handler_def auth_def send_package_def send_log_error_def disconnect_def
        emit_def bob_def example_world_def)
qed

section \<open>The end of a connection\<close>

lemma message_loop_offline: "\<not> is_online w \<Longrightarrow> message_loop reg u script w = Some (None, w)"
  by (cases script) simp_all

lemma message_loop_receive_raises:
  "is_online w \<Longrightarrow> message_loop reg u (Raises e # rest) w = Some (Some e, w)"
  by (simp add: loop_iteration_def)

lemma cl_finally_removes:
  assumes "hashable (login u)"
  shows "fst (cl_finally u w) = None
     \<and> map_of (cl_units (snd (cl_finally u w))) (py_key (login u)) = None
     \<and> trace (snd (cl_finally u w))
         = trace w @ [Disconnect (uid u), Log Info (IsDisconnected (login u))]"
  using assms
  by (simp add: cl_finally_def logger_def disconnect_def emit_def delete_conv')

lemma cl_serve_ends_in_finally:
  assumes "hashable (login u)" and "cl_serve reg u script w = Some (r, w')"
  shows "\<exists>w3. w' = snd (cl_finally u w3)"
  using assms
  by (auto simp: cl_serve_def cl_register_def Let_def
      split: option.splits prod.splits sum.splits if_splits) (metis snd_conv)+

text \<open>
  C3. Whenever the part of the handler that follows the handshake ends, by
  whatever path, the live set has no entry under the connection's login and
  the last effects are the transport's disconnect and the log record. It does
  end when the server is offline and when the receive raises (a disconnect
  class failure, a cancellation or any other exception). Removing a login that
  the set no longer holds raises nothing and leaves the set as it is.
\<close>

theorem cl_serve_always_cleans_up:
  assumes "hashable (login u)"
  shows "(cl_serve reg u script w = Some (r, w') \<longrightarrow>
            map_of (cl_units w') (py_key (login u)) = None
          \<and> (\<exists>t. trace w' = t @ [Disconnect (uid u), Log Info (IsDisconnected (login u))]))
     \<and> (\<not> is_online w \<longrightarrow> cl_serve reg u script w \<noteq> None)
     \<and> (is_online w \<longrightarrow> cl_serve reg u (Raises e # rest) w \<noteq> None)
     \<and> (map_of (cl_units w) (py_key (login u)) = None \<longrightarrow>
          cl_finally u w = (None, logger Info (IsDisconnected (login u)) (disconnect u w)))"
proof -
  have post: "map_of (cl_units w') (py_key (login u)) = None
      \<and> (\<exists>t. trace w' = t @ [Disconnect (uid u), Log Info (IsDisconnected (login u))])"
    if ends: "cl_serve reg u script w = Some (r, w')"
  proof -
    obtain w3 where "w' = snd (cl_finally u w3)"
      using cl_serve_ends_in_finally [OF assms ends] by blast
    then show ?thesis
      using cl_finally_removes [OF assms, of w3] by simp
  qed
  have off: "cl_serve reg u script w \<noteq> None" if "\<not> is_online w"
    using assms that
    by (simp add: cl_serve_def cl_register_def message_loop_offline logger_def emit_def
        split: prod.splits)
  have exc: "cl_serve reg u (Raises e # rest) w \<noteq> None" if "is_online w"
  proof -
    let ?w1 = "logger Info (IsConnected (login u))
                 (w\<lparr>cl_units := AList.update (py_key (login u)) u (cl_units w)\<rparr>)"
    have "is_online ?w1" using that by (simp add: logger_def emit_def)
    then have "message_loop reg u (Raises e # rest) ?w1 = Some (Some e, ?w1)"
      by (rule message_loop_receive_raises)
    then show ?thesis
      using assms by (simp add: cl_serve_def cl_register_def split: prod.splits)
  qed
  have absent: "cl_finally u w = (None, logger Info (IsDisconnected (login u)) (disconnect u w))"
    if "map_of (cl_units w) (py_key (login u)) = None"
  proof -
    have "py_key (login u) \<notin> fst ` set (cl_units w)"
      using that by (simp add: map_of_eq_None_iff)
    then show ?thesis
      using assms by (simp add: cl_finally_def)
  qed
  show ?thesis using post off exc absent by blast
qed

theorem cl_serve_always_cleans_up_witness:
  "hashable (login alice)
   \<and> cl_serve example_registry alice [] (example_world\<lparr>is_online := False\<rparr>)
     = Some (None, example_world\<lparr>is_online := False, trace :=
         [Log Info (IsConnected (PStr ''alice'')), Disconnect 1,
          Log Info (IsDisconnected (PStr ''alice''))]\<rparr>)
   \<and> cl_serve example_registry alice [Raises ConnectionResetError] example_world
     = Some (None, example_world\<lparr>trace :=
         [Log Info (IsConnected (PStr ''alice'')), Disconnect 1,
          Log Info (IsDisconnected (PStr ''alice''))]\<rparr>)
   \<and> cl_serve example_registry alice [Raises CancelledError] example_world
     = Some (None, example_world\<lparr>trace :=
         [Log Info (IsConnected (PStr ''alice'')), Disconnect 1,
          Log Info (IsDisconnected (PStr ''alice''))]\<rparr>)
   \<and> cl_serve example_registry alice [Raises (OtherException ''boom'')] example_world
     = Some (None, example_world\<lparr>trace :=
         [Log Info (IsConnected (PStr ''alice'')),
          SentLogError 1 (Unexpected (OtherException ''boom'')), Disconnect 1,
          Log Info (IsDisconnected (PStr ''alice''))]\<rparr>)"
proof -
  have h: "hashable (login alice)" by (simp add: alice_def)
  note t = cl_serve_always_cleans_up [OF h, of example_registry
      "[Raises ConnectionResetError]" example_world None
      "example_world\<lparr>trace :=
         [Log Info (IsConnected (PStr ''alice'')), Disconnect 1,
          Log Info (IsDisconnected (PStr ''alice''))]\<rparr>"]
  show ?thesis using h t
    by (simp add: cl_serve_def cl_register_def cl_finally_def loop_except_def loop_iteration_def
        logger_def disconnect_def send_log_error_def emit_def alice_def example_world_def)
qed

lemma values_after_update:
  "distinct (map fst al) \<Longrightarrow> map_of al k = Some old \<Longrightarrow>
   snd ` set (AList.update k v al) = insert v (snd ` set (AList.delete k al))"
proof (induction al)
  case Nil
  then show ?case by simp
next
  case (Cons p al)
  obtain a b where p: "p = (a, b)" by (cases p)
  show ?case
  proof (cases "a = k")
    case True
    then have "k \<notin> fst ` set al" using Cons.prems(1) p by auto
    then show ?thesis using True p by simp
  next
    case False
    then have "map_of al k = Some old" using Cons.prems(2) p by simp
    then have "snd ` set (AList.update k v al) = insert v (snd ` set (AList.delete k al))"
      using Cons.IH Cons.prems(1) by simp
    then show ?thesis using False p by (simp add: insert_commute)
  qed
qed

text \<open>
  C9. A unit whose login is already a key of the live set is entered by plain
  assignment: the key then maps to the new unit and the keys are as before, so
  the earlier unit is no longer in the set (when it was held under that key
  only). The cleanup of any connection with that login then removes the entry
  that is there.
\<close>

theorem duplicate_login_replaces_entry:
  assumes "hashable (login u)"
    and "map_of (cl_units w) (py_key (login u)) = Some old"
  shows "\<exists>w1. cl_register u w = Inr w1
     \<and> map_of (cl_units w1) (py_key (login u)) = Some u
     \<and> map fst (cl_units w1) = map fst (cl_units w)
     \<and> (distinct (map fst (cl_units w)) \<and> old \<noteq> u
          \<and> old \<notin> snd ` set (AList.delete (py_key (login u)) (cl_units w))
        \<longrightarrow> old \<notin> snd ` set (cl_units w1))
     \<and> (login v = login u \<longrightarrow>
          fst (cl_finally v w1) = None
        \<and> cl_units (snd (cl_finally v w1)) = AList.delete (py_key (login u)) (cl_units w)
        \<and> map_of (cl_units (snd (cl_finally v w1))) (py_key (login u)) = None)"
proof -
  let ?k = "py_key (login u)"
  let ?w1 = "logger Info (IsConnected (login u))
               (w\<lparr>cl_units := AList.update ?k u (cl_units w)\<rparr>)"
  have reg: "cl_register u w = Inr ?w1"
    using assms(1) by (simp add: cl_register_def)
  have units: "cl_units ?w1 = AList.update ?k u (cl_units w)"
    by (simp add: logger_def emit_def)
  have key: "?k \<in> set (map fst (cl_units w))"
    using assms(2) by (metis map_of_eq_None_iff option.distinct(1) set_map)
  have keys: "map fst (cl_units ?w1) = map fst (cl_units w)"
    using key by (simp add: units update_keys)
  have gone: "old \<notin> snd ` set (cl_units ?w1)"
    if "distinct (map fst (cl_units w))" "old \<noteq> u"
       "old \<notin> snd ` set (AList.delete ?k (cl_units w))"
    using that values_after_update [OF that(1) assms(2), of u] by (simp add: units)
  have fin: "fst (cl_finally v ?w1) = None
      \<and> cl_units (snd (cl_finally v ?w1)) = AList.delete ?k (cl_units w)
      \<and> map_of (cl_units (snd (cl_finally v ?w1))) ?k = None"
    if "login v = login u"
    using that assms(1)
    by (simp add: cl_finally_def logger_def disconnect_def emit_def delete_update_same delete_conv')
  show ?thesis
    using reg keys gone fin by (auto simp: units update_conv')
qed

theorem duplicate_login_replaces_entry_witness:
  "hashable (login alice_again)
   \<and> map_of (cl_units (example_world\<lparr>cl_units := [(PStr ''alice'', alice)]\<rparr>))
        (py_key (login alice_again)) = Some alice
   \<and> cl_register alice_again (example_world\<lparr>cl_units := [(PStr ''alice'', alice)]\<rparr>)
     = Inr (example_world\<lparr>cl_units := [(PStr ''alice'', alice_again)],
              trace := [Log Info (IsConnected (PStr ''alice''))]\<rparr>)
   \<and> alice \<notin> snd ` set [(PStr ''alice'', alice_again)]
   \<and> cl_finally alice (example_world\<lparr>cl_units := [(PStr ''alice'', alice_again)]\<rparr>)
     = (None, example_world\<lparr>cl_units := [],
          trace := [Disconnect 1, Log Info (IsDisconnected (PStr ''alice''))]\<rparr>)"
proof -
  have h: "hashable (login alice_again)" by (simp add: alice_again_def)
  have m: "map_of (cl_units (example_world\<lparr>cl_units := [(PStr ''alice'', alice)]\<rparr>))
        (py_key (login alice_again)) = Some alice"
    by (simp add: alice_again_def)
  note t = duplicate_login_replaces_entry [OF h m, of alice]
  show ?thesis using h m t
    by (simp add: cl_register_def cl_finally_def logger_def disconnect_def emit_def
        alice_def alice_again_def example_world_def)
qed

section \<open>Shutdown\<close>

lemma stop_steps_state:
  "\<not> is_online w1 \<Longrightarrow>
   \<not> is_online (snd (stop_steps io w1)) \<and> cl_units (snd (stop_steps io w1)) = [] \<and>
   (\<exists>rest. trace (snd (stop_steps io w1))
      = trace w1 @ map (\<lambda>u. DisconnectScheduled (uid u)) (map snd (cl_units w1)) @ rest)"
  by (auto simp: stop_steps_def gather_disconnect_def logger_def emit_def Let_def
      split: option.splits)

text \<open>
  C2. Called while the server is offline, \<open>stop()\<close> raises
  \<open>RuntimeError\<close> and the state is unchanged. Called while online, it
  clears the online flag before anything else (the rest runs in the state with
  the flag cleared), issues one disconnect per live connection and leaves the
  live set empty, whatever closing the listener and stopping the store do.
\<close>

theorem stop_offline_fails_online_clears:
  "(\<not> is_online w \<longrightarrow> stop io w = (Some (RuntimeError ''Server is not working.''), w)) \<and>
   (is_online w \<longrightarrow>
      stop io w = stop_steps io (w\<lparr>is_online := False\<rparr>) \<and>
      \<not> is_online (snd (stop io w)) \<and>
      cl_units (snd (stop io w)) = [] \<and>
      (\<exists>rest. trace (snd (stop io w))
         = trace w @ map (\<lambda>u. DisconnectScheduled (uid u)) (map snd (cl_units w)) @ rest))"
  using stop_steps_state [of "w\<lparr>is_online := False\<rparr>" io]
  by (simp add: stop_def)

theorem stop_offline_fails_online_clears_witness:
  "is_online (example_world\<lparr>cl_units := [(PStr ''alice'', alice), (PStr ''bob'', bob)]\<rparr>)
   \<and> stop \<lparr>wait_closed_result = None, store_stop_result = None\<rparr>
        (example_world\<lparr>cl_units := [(PStr ''alice'', alice), (PStr ''bob'', bob)]\<rparr>)
     = (None, example_world\<lparr>cl_units := [], server := Some Closed, is_online := False,
          trace := [DisconnectScheduled 1, DisconnectScheduled 2, StoreStopped,
                    Log Info ServerStop]\<rparr>)
   \<and> \<not> is_online (example_world\<lparr>is_online := False\<rparr>)
   \<and> stop \<lparr>wait_closed_result = None, store_stop_result = None\<rparr>
        (example_world\<lparr>is_online := False\<rparr>)
     = (Some (RuntimeError ''Server is not working.''), example_world\<lparr>is_online := False\<rparr>)"
proof -
  note t1 = stop_offline_fails_online_clears
    [of "example_world\<lparr>cl_units := [(PStr ''alice'', alice), (PStr ''bob'', bob)]\<rparr>"
        "\<lparr>wait_closed_result = None, store_stop_result = None\<rparr>"]
  note t2 = stop_offline_fails_online_clears
    [of "example_world\<lparr>is_online := False\<rparr>"
        "\<lparr>wait_closed_result = None, store_stop_result = None\<rparr>"]
  show ?thesis using t1 t2
    by (simp add: stop_def stop_steps_def gather_disconnect_def logger_def emit_def
        alice_def bob_def example_world_def)
qed

end
